theory Spec2Isabelle
  imports Complex_Main "HOL-Library.AList"
begin

section \<open>Values, errors and NaN-aware reductions\<close>

text \<open>
  The module \<^verbatim>\<open>deafrica_temporal_statistics.py\<close> works on floating-point arrays in
  which NaN marks a missing observation. A cell is a \<open>real option\<close>: \<open>None\<close> is NaN,
  \<open>Some r\<close> a number. The reals idealise the floats: rounding (and with it the
  \<^verbatim>\<open>astype(np.float32)\<close> casts) is not modelled, and the non-finite quotient of a
  division by zero is merged into \<open>None\<close>. Casts to \<^verbatim>\<open>int16\<close> change what a cell can
  hold and are modelled.

  An array with a reduction axis is the list of its slices along that axis; a
  three-dimensional volume is the list of its pixel series, the pixels in row-major
  (y, x) order.
\<close>

type_synonym val = "real option"

datatype error =
  TypeError | ValueError | KeyError | IndexError | UnboundLocalError | AttributeError

definition bind_r :: "error + 'a \<Rightarrow> ('a \<Rightarrow> error + 'b) \<Rightarrow> error + 'b" where
  "bind_r m f = (case m of Inl e \<Rightarrow> Inl e | Inr v \<Rightarrow> f v)"

text \<open>A whole-array operation that fails on one slice fails as a whole.\<close>

fun map_r :: "('a \<Rightarrow> error + 'b) \<Rightarrow> 'a list \<Rightarrow> error + 'b list" where
  "map_r f [] = Inr []"
| "map_r f (a # as) =
     (case f a of Inl e \<Rightarrow> Inl e
      | Inr b \<Rightarrow> (case map_r f as of Inl e \<Rightarrow> Inl e | Inr bs \<Rightarrow> Inr (b # bs)))"

text \<open>The numbers of a slice, the missing cells skipped.\<close>

fun present :: "val list \<Rightarrow> real list" where
  "present [] = []"
| "present (None # vs) = present vs"
| "present (Some r # vs) = r # present vs"

text \<open>\<^verbatim>\<open>isnull().all(dim)\<close> on one slice.\<close>

definition all_null :: "val list \<Rightarrow> bool" where
  "all_null vs = (present vs = [])"

text \<open>
  \<^verbatim>\<open>max\<close> and \<^verbatim>\<open>min\<close> with \<^verbatim>\<open>skipna\<close> (the default on floats): a reduction over
  no cell at all raises ValueError, one over missing cells only gives NaN.
\<close>

definition nanmax :: "val list \<Rightarrow> error + val" where
  "nanmax vs =
     (if vs = [] then Inl ValueError
      else case present vs of [] \<Rightarrow> Inr None | r # rs \<Rightarrow> Inr (Some (fold max rs r)))"

definition nanmin :: "val list \<Rightarrow> error + val" where
  "nanmin vs =
     (if vs = [] then Inl ValueError
      else case present vs of [] \<Rightarrow> Inr None | r # rs \<Rightarrow> Inr (Some (fold min rs r)))"

text \<open>The first position of a cell in a slice.\<close>

fun first_index :: "'a \<Rightarrow> 'a list \<Rightarrow> nat" where
  "first_index a [] = 0"
| "first_index a (b # bs) = (if a = b then 0 else Suc (first_index a bs))"

text \<open>
  \<^verbatim>\<open>argmax\<close> and \<^verbatim>\<open>argmin\<close> with \<^verbatim>\<open>skipna\<close>: the first position of the extremum
  of the numbers present; ValueError on an empty slice and on an all-NaN slice
  ("All-NaN slice encountered").
\<close>

definition nanargmax :: "val list \<Rightarrow> error + nat" where
  "nanargmax vs =
     (case present vs of [] \<Rightarrow> Inl ValueError
      | r # rs \<Rightarrow> Inr (first_index (Some (fold max rs r)) vs))"

definition nanargmin :: "val list \<Rightarrow> error + nat" where
  "nanargmin vs =
     (case present vs of [] \<Rightarrow> Inl ValueError
      | r # rs \<Rightarrow> Inr (first_index (Some (fold min rs r)) vs))"

text \<open>Arithmetic on cells: NaN propagates.\<close>

definition vsub :: "val \<Rightarrow> val \<Rightarrow> val" where
  "vsub a b = (case (a, b) of (Some p, Some q) \<Rightarrow> Some (p - q) | _ \<Rightarrow> None)"

definition vadd :: "val \<Rightarrow> val \<Rightarrow> val" where
  "vadd a b = (case (a, b) of (Some p, Some q) \<Rightarrow> Some (p + q) | _ \<Rightarrow> None)"

definition vmul :: "val \<Rightarrow> val \<Rightarrow> val" where
  "vmul a b = (case (a, b) of (Some p, Some q) \<Rightarrow> Some (p * q) | _ \<Rightarrow> None)"

definition vdiv :: "val \<Rightarrow> val \<Rightarrow> val" where
  "vdiv a b =
     (case (a, b) of (Some p, Some q) \<Rightarrow> (if q = 0 then None else Some (p / q))
      | _ \<Rightarrow> None)"

definition vfabs :: "val \<Rightarrow> val" where
  "vfabs a = map_option abs a"

definition fillna :: "val \<Rightarrow> val \<Rightarrow> val" where
  "fillna fill v = (case v of None \<Rightarrow> fill | Some r \<Rightarrow> Some r)"

section \<open>allNaN_arg\<close>

text \<open>
  \<^verbatim>\<open>allNaN_arg(da, dim, stat)\<close>. The array \<open>da\<close> is given as its slices along
  \<open>dim\<close>. The mask is taken per slice; the fill value comes from \<^verbatim>\<open>da.min()\<close> or
  \<^verbatim>\<open>da.max()\<close>, a reduction over the whole array, which raises on an array with no
  cell and is NaN when every cell is. The result of \<^verbatim>\<open>.where(~mask)\<close> is a float
  array: an index, or NaN where the slice was all-NaN. A \<open>stat\<close> that is neither
  \<^verbatim>\<open>'max'\<close> nor \<^verbatim>\<open>'min'\<close> falls off the end of the function, which returns None.
\<close>

definition mask_index :: "val list \<Rightarrow> nat \<Rightarrow> nat option" where
  "mask_index slice i = (if all_null slice then None else Some i)"

definition allNaN_arg :: "val list list \<Rightarrow> string \<Rightarrow> error + nat option list option" where
  "allNaN_arg da stat =
     (if stat = ''max'' then
        bind_r (nanmin (concat da)) (\<lambda>m.
        bind_r (map_r nanargmax (map (map (fillna (vsub m (Some 1)))) da)) (\<lambda>y.
        Inr (Some (map2 mask_index da y))))
      else if stat = ''min'' then
        bind_r (nanmax (concat da)) (\<lambda>m.
        bind_r (map_r nanargmin (map (map (fillna (vadd m (Some 1)))) da)) (\<lambda>y.
        Inr (Some (map2 mask_index da y))))
      else Inr None)"

section \<open>The volume and its time axis\<close>

text \<open>
  A time step carries its time stamp (the \<^verbatim>\<open>datetime64\<close> as a number) and the
  day of year that \<^verbatim>\<open>.dt.dayofyear\<close> reads from it. A DataArray with dimensions
  (y, x, time) carries its coordinates, its attribute bag and one series per pixel;
  \<open>da_dask\<close> says whether \<^verbatim>\<open>dask.is_dask_collection\<close> holds of it.
\<close>

record tstep =
  stamp :: int
  dayofyear :: int

record dataarray =
  da_dask :: bool
  da_x :: "real list"
  da_y :: "real list"
  da_time :: "tstep list"
  da_attrs :: "(string \<times> string) list"
  da_values :: "val list list"

text \<open>What xarray guarantees of any DataArray: the data fit the coordinates.\<close>

definition shape_ok :: "dataarray \<Rightarrow> bool" where
  "shape_ok da =
     (length (da_values da) = length (da_y da) * length (da_x da) \<and>
      list_all (\<lambda>s. length s = length (da_time da)) (da_values da))"

text \<open>What \<^verbatim>\<open>.dt.dayofyear\<close> guarantees: a day of year lies between 1 and 366.\<close>

definition doy_ok :: "dataarray \<Rightarrow> bool" where
  "doy_ok da = list_all (\<lambda>t. 1 \<le> dayofyear t \<and> dayofyear t \<le> 366) (da_time da)"

text \<open>Python indexing: a negative index counts from the end.\<close>

definition py_index :: "'a list \<Rightarrow> int \<Rightarrow> error + 'a" where
  "py_index xs i =
     (if 0 \<le> i \<and> i < int (length xs) then Inr (xs ! nat i)
      else if i < 0 \<and> - int (length xs) \<le> i then Inr (xs ! nat (int (length xs) + i))
      else Inl IndexError)"

text \<open>\<^verbatim>\<open>astype(np.int16)\<close> on integers wraps around.\<close>

definition int16 :: "int \<Rightarrow> int" where
  "int16 i = (i + 32768) mod 65536 - 32768"

text \<open>
  \<^verbatim>\<open>astype('int16')\<close> on the float index array of allNaN_arg. NaN has no integer
  value: what the cast yields is left to the platform (0 on the common ones), so it is
  the parameter \<open>nan16\<close> of the model.
\<close>

definition index16 :: "int \<Rightarrow> nat option \<Rightarrow> int" where
  "index16 nan16 i = (case i of None \<Rightarrow> nan16 | Some k \<Rightarrow> int16 (int k))"

section \<open>Derivative and median along time\<close>

text \<open>
  \<^verbatim>\<open>differentiate('time')\<close> is \<^verbatim>\<open>np.gradient\<close> over the time stamps with
  \<^verbatim>\<open>edge_order=1\<close>: one-sided differences at both ends, and inside the
  second-order formula, which for equally spaced stamps reads only the two neighbours.
  It raises ValueError on fewer than two time steps.
\<close>

definition diffs :: "real list \<Rightarrow> real list" where
  "diffs xs = map2 (\<lambda>a b. b - a) xs (tl xs)"

definition uniform :: "real list \<Rightarrow> bool" where
  "uniform xs = (case diffs xs of [] \<Rightarrow> True | d # ds \<Rightarrow> list_all (\<lambda>e. e = d) ds)"

definition slope :: "real \<Rightarrow> real \<Rightarrow> val \<Rightarrow> val \<Rightarrow> val" where
  "slope x0 x1 f0 f1 = vdiv (vsub f1 f0) (Some (x1 - x0))"

definition central :: "bool \<Rightarrow> real \<Rightarrow> real \<Rightarrow> real \<Rightarrow> val \<Rightarrow> val \<Rightarrow> val \<Rightarrow> val" where
  "central uni x0 x1 x2 f0 f1 f2 =
     (let dx1 = x1 - x0; dx2 = x2 - x1 in
      if uni then vdiv (vsub f2 f0) (Some (2 * dx1))
      else
        vadd (vadd (vmul (vdiv (Some (- dx2)) (Some (dx1 * (dx1 + dx2)))) f0)
                   (vmul (vdiv (Some (dx2 - dx1)) (Some (dx1 * dx2))) f1))
             (vmul (vdiv (Some dx1) (Some (dx2 * (dx1 + dx2)))) f2))"

fun interior :: "bool \<Rightarrow> real list \<Rightarrow> val list \<Rightarrow> val list" where
  "interior uni (x0 # x1 # x2 # xs) (f0 # f1 # f2 # fs) =
     central uni x0 x1 x2 f0 f1 f2 # interior uni (x1 # x2 # xs) (f1 # f2 # fs)"
| "interior uni xs fs = []"

definition gradient :: "real list \<Rightarrow> val list \<Rightarrow> val list" where
  "gradient xs fs =
     (let n = length fs in
      slope (xs ! 0) (xs ! 1) (fs ! 0) (fs ! 1)
      # interior (uniform xs) xs fs
      @ [slope (xs ! (n - 2)) (xs ! (n - 1)) (fs ! (n - 2)) (fs ! (n - 1))])"

definition differentiate :: "tstep list \<Rightarrow> val list list \<Rightarrow> error + val list list" where
  "differentiate ts arr =
     (if length ts < 2 then Inl ValueError
      else Inr (map (gradient (map (\<lambda>t. real_of_int (stamp t)) ts)) arr))"

text \<open>\<^verbatim>\<open>median('time')\<close> skips NaN; it is NaN on an all-NaN series.\<close>

definition nanmedian :: "val list \<Rightarrow> val" where
  "nanmedian vs =
     (let s = sort (present vs); n = length s in
      if n = 0 then None
      else if odd n then Some (s ! (n div 2))
      else Some ((s ! (n div 2 - 1) + s ! (n div 2)) / 2))"

text \<open>
  \<^verbatim>\<open>where(cond)\<close> keeps a cell where \<open>cond\<close> holds and puts NaN elsewhere. Given a
  float array as \<open>cond\<close>, NumPy reads each cell as a truth value: every cell but
  zero holds, NaN included.
\<close>

definition where_cond :: "bool \<Rightarrow> val \<Rightarrow> val" where
  "where_cond c v = (if c then v else None)"

definition truthy :: "val \<Rightarrow> bool" where
  "truthy c = (case c of None \<Rightarrow> True | Some r \<Rightarrow> r \<noteq> 0)"

definition positive :: "val \<Rightarrow> bool" where
  "positive c = (case c of None \<Rightarrow> False | Some r \<Rightarrow> 0 < r)"

definition negative :: "val \<Rightarrow> bool" where
  "negative c = (case c of None \<Rightarrow> False | Some r \<Rightarrow> r < 0)"

section \<open>The season metrics\<close>

text \<open>
  \<^verbatim>\<open>_vpos\<close>, \<^verbatim>\<open>_pos\<close>, \<^verbatim>\<open>_trough\<close>, \<^verbatim>\<open>_aos\<close>: reductions over the time axis.
  A reduction over an empty time axis raises ValueError. \<^verbatim>\<open>_pos\<close> returns the day
  of year of the peak together with its \<^verbatim>\<open>time\<close> coordinate, which \<^verbatim>\<open>_vsos\<close> and
  \<^verbatim>\<open>_veos\<close> read as \<^verbatim>\<open>pos.time\<close>: the result is the time step itself.
\<close>

definition phen_vpos :: "dataarray \<Rightarrow> error + val list" where
  "phen_vpos da =
     (if da_time da = [] then Inl ValueError else map_r nanmax (da_values da))"

definition phen_pos :: "dataarray \<Rightarrow> error + tstep list" where
  "phen_pos da =
     (if da_time da = [] then Inl ValueError
      else map_r (\<lambda>s. bind_r (nanargmax s) (\<lambda>i. py_index (da_time da) (int i)))
             (da_values da))"

definition phen_trough :: "dataarray \<Rightarrow> error + val list" where
  "phen_trough da =
     (if da_time da = [] then Inl ValueError else map_r nanmin (da_values da))"

definition phen_aos :: "val list \<Rightarrow> val list \<Rightarrow> val list" where
  "phen_aos vpos trough = map2 vsub vpos trough"

text \<open>
  \<^verbatim>\<open>.astype('int16')\<close> on the result of allNaN_arg, and \<^verbatim>\<open>isel(time=idx)\<close> with one
  index per pixel: the selected cell with its time step, IndexError out of range.
\<close>

definition astype16 :: "int \<Rightarrow> error + nat option list option \<Rightarrow> error + int list" where
  "astype16 nan16 r =
     bind_r r (\<lambda>res. case res of None \<Rightarrow> Inl AttributeError
                     | Some ix \<Rightarrow> Inr (map (index16 nan16) ix))"

definition isel_time :: "tstep list \<Rightarrow> val list list \<Rightarrow> int list \<Rightarrow> error + (val \<times> tstep) list" where
  "isel_time ts arr idx =
     map_r (\<lambda>(s, i). bind_r (py_index s i) (\<lambda>v. bind_r (py_index ts i) (\<lambda>t. Inr (v, t))))
       (zip arr idx)"

definition select_index :: "int \<Rightarrow> string \<Rightarrow> string \<Rightarrow> val list list \<Rightarrow> error + int list" where
  "select_index nan16 method extreme distance =
     (if method = extreme then astype16 nan16 (allNaN_arg distance ''min'')
      else if method = ''median'' then
        astype16 nan16 (allNaN_arg (map (map vfabs) distance) ''min'')
      else Inl UnboundLocalError)"

text \<open>
  \<^verbatim>\<open>_vsos(da, pos, method_sos)\<close>. The filter \<^verbatim>\<open>greenup.where(pos_green_deriv)\<close>
  is given the float array of positive slopes (NaN elsewhere) as its condition.
\<close>

definition phen_vsos :: "int \<Rightarrow> dataarray \<Rightarrow> tstep list \<Rightarrow> string \<Rightarrow> error + (val \<times> tstep) list" where
  "phen_vsos nan16 da pos method_sos =
     (let greenup =
            map2 (\<lambda>p. map2 (\<lambda>t. where_cond (stamp t < stamp p)) (da_time da))
              pos (da_values da)
      in
      bind_r (differentiate (da_time da) greenup) (\<lambda>green_deriv.
      let pos_green_deriv = map (map (\<lambda>d. where_cond (positive d) d)) green_deriv;
          pos_greenup = map2 (map2 (\<lambda>c. where_cond (truthy c))) pos_green_deriv greenup;
          median = map nanmedian pos_greenup;
          distance = map2 (\<lambda>s m. map (\<lambda>v. vsub v m) s) pos_greenup median
      in
      bind_r (select_index nan16 method_sos ''first'' distance) (\<lambda>idx.
      isel_time (da_time da) pos_greenup idx)))"

definition phen_sos :: "(val \<times> tstep) list \<Rightarrow> int list" where
  "phen_sos vsos = map (\<lambda>(v, t). dayofyear t) vsos"

text \<open>\<^verbatim>\<open>_veos(da, pos, method_eos)\<close>: the same on the time steps after the peak.\<close>

definition phen_veos :: "int \<Rightarrow> dataarray \<Rightarrow> tstep list \<Rightarrow> string \<Rightarrow> error + (val \<times> tstep) list" where
  "phen_veos nan16 da pos method_eos =
     (let senesce =
            map2 (\<lambda>p. map2 (\<lambda>t. where_cond (stamp p < stamp t)) (da_time da))
              pos (da_values da)
      in
      bind_r (differentiate (da_time da) senesce) (\<lambda>senesce_deriv.
      let neg_senesce_deriv = map (map (\<lambda>d. where_cond (negative d) d)) senesce_deriv;
          neg_senesce = map2 (map2 (\<lambda>c. where_cond (truthy c))) neg_senesce_deriv senesce;
          median = map nanmedian neg_senesce;
          distance = map2 (\<lambda>s m. map (\<lambda>v. vsub v m) s) neg_senesce median
      in
      bind_r (select_index nan16 method_eos ''last'' distance) (\<lambda>idx.
      isel_time (da_time da) neg_senesce idx)))"

definition phen_eos :: "(val \<times> tstep) list \<Rightarrow> int list" where
  "phen_eos veos = map (\<lambda>(v, t). dayofyear t) veos"

text \<open>
  \<^verbatim>\<open>_los(da, eos, sos)\<close>: the difference, and where it is negative the day of year
  of the last time step (\<^verbatim>\<open>da.time.dt.dayofyear.values[-1]\<close>) added to it.
\<close>

definition los_cell :: "int \<Rightarrow> int \<Rightarrow> int \<Rightarrow> int" where
  "los_cell last_doy e s = (let los = e - s in if 0 \<le> los then los else last_doy + (e - s))"

definition phen_los :: "dataarray \<Rightarrow> int list \<Rightarrow> int list \<Rightarrow> error + int list" where
  "phen_los da eos sos =
     bind_r (py_index (map dayofyear (da_time da)) (- 1)) (\<lambda>last_doy.
     Inr (map2 (los_cell last_doy) eos sos))"

text \<open>\<^verbatim>\<open>_rog\<close> and \<^verbatim>\<open>_ros\<close>: a difference of values over a difference of days.\<close>

definition rate :: "val \<Rightarrow> val \<Rightarrow> int \<Rightarrow> int \<Rightarrow> val" where
  "rate a b d1 d2 = vdiv (vsub a b) (Some (real_of_int (d1 - d2)))"

definition phen_rog :: "val list \<Rightarrow> val list \<Rightarrow> int list \<Rightarrow> int list \<Rightarrow> val list" where
  "phen_rog vpos vsos pos sos =
     map2 (\<lambda>(a, b) (d1, d2). rate a b d1 d2) (zip vpos vsos) (zip pos sos)"

definition phen_ros :: "val list \<Rightarrow> val list \<Rightarrow> int list \<Rightarrow> int list \<Rightarrow> val list" where
  "phen_ros veos vpos eos pos =
     map2 (\<lambda>(a, b) (d1, d2). rate a b d1 d2) (zip veos vpos) (zip eos pos)"

section \<open>The external library and the output\<close>

text \<open>
  The functions of \<^verbatim>\<open>hdstats\<close> are not part of the repository: they are parameters,
  each a function on the bare array of pixel series.
\<close>

record hdstats =
  fast_completion :: "val list list \<Rightarrow> val list list"
  smooth :: "val list list \<Rightarrow> val list list"
  discordance :: "val list list \<Rightarrow> nat \<Rightarrow> val list"
  fourier_std :: "val list list \<Rightarrow> nat \<Rightarrow> nat \<Rightarrow> val list list"
  fourier_mean :: "val list list \<Rightarrow> nat \<Rightarrow> nat \<Rightarrow> val list list"
  fourier_median :: "val list list \<Rightarrow> nat \<Rightarrow> nat \<Rightarrow> val list list"
  mean_change :: "val list list \<Rightarrow> val list"
  median_change :: "val list list \<Rightarrow> val list"
  mean_abs_change :: "val list list \<Rightarrow> val list"
  complexity :: "val list list \<Rightarrow> val list"
  mean_central_diff :: "val list list \<Rightarrow> val list"
  number_peaks :: "val list list \<Rightarrow> nat \<Rightarrow> val list"

text \<open>
  A variable of the returned Dataset: a two-dimensional array over (y, x) with its
  coordinates, its attribute bag and its cells, integers after \<^verbatim>\<open>astype(np.int16)\<close>
  and floats otherwise. The Dataset is the list of its variables in insertion order;
  assigning to a name it holds replaces the variable in place.
\<close>

datatype ldata = Ints "int list" | Floats "val list"

record layer =
  l_x :: "real list"
  l_y :: "real list"
  l_attrs :: "(string \<times> string) list"
  l_data :: ldata

text \<open>\<^verbatim>\<open>stats if isinstance(stats, list) else [stats]\<close>\<close>

datatype stats_arg = Listed "string list" | Bare string

definition as_list :: "stats_arg \<Rightarrow> string list" where
  "as_list a = (case a of Listed l \<Rightarrow> l | Bare s \<Rightarrow> [s])"

definition dict_get :: "(string \<times> 'v) list \<Rightarrow> string \<Rightarrow> error + 'v" where
  "dict_get d k = (case map_of d k of None \<Rightarrow> Inl KeyError | Some v \<Rightarrow> Inr v)"

section \<open>xr_phenology\<close>

text \<open>
  The completion and smoothing step rebuilds the DataArray from the bare array with
  the coordinates and attributes taken beforehand; \<^verbatim>\<open>xr.DataArray\<close> raises
  ValueError when the array does not fit the coordinates. Then every all-NaN pixel
  is set to zero.
\<close>

definition rebuild :: "dataarray \<Rightarrow> val list list \<Rightarrow> error + dataarray" where
  "rebuild da arr =
     (let da' = da\<lparr>da_values := arr\<rparr> in if shape_ok da' then Inr da' else Inl ValueError)"

definition zero_fill :: "val list \<Rightarrow> val list" where
  "zero_fill s = (if all_null s then map (\<lambda>v. Some 0) s else s)"

definition prepare :: "hdstats \<Rightarrow> dataarray \<Rightarrow> bool \<Rightarrow> error + dataarray" where
  "prepare lib da complete_smooth =
     bind_r (if complete_smooth
             then rebuild da (smooth lib (fast_completion lib (da_values da)))
             else Inr da) (\<lambda>da.
     Inr (da\<lparr>da_values := map zero_fill (da_values da)\<rparr>))"

text \<open>
  The eleven statistics, in the order of the source's dictionary. Each is a
  DataArray over the spatial coordinates of \<open>da\<close>. None of them carries the attribute
  bag of \<open>da\<close>: with xarray's defaults the reductions, the arithmetic, \<^verbatim>\<open>xr.where\<close>
  and \<^verbatim>\<open>astype\<close> return their result without attributes, and the day-of-year
  arrays are read from the time coordinate, not from \<open>da\<close>.
\<close>

definition mk_layer :: "dataarray \<Rightarrow> ldata \<Rightarrow> layer" where
  "mk_layer da d = \<lparr>l_x = da_x da, l_y = da_y da, l_attrs = [], l_data = d\<rparr>"

definition phen_stats_dict :: "int \<Rightarrow> dataarray \<Rightarrow> string \<Rightarrow> string \<Rightarrow> error + (string \<times> layer) list" where
  "phen_stats_dict nan16 da method_sos method_eos =
     bind_r (phen_vpos da) (\<lambda>vpos.
     bind_r (phen_pos da) (\<lambda>pos.
     bind_r (phen_trough da) (\<lambda>trough.
     bind_r (Inr (phen_aos vpos trough)) (\<lambda>aos.
     bind_r (phen_vsos nan16 da pos method_sos) (\<lambda>vsos.
     bind_r (Inr (phen_sos vsos)) (\<lambda>sos.
     bind_r (phen_veos nan16 da pos method_eos) (\<lambda>veos.
     bind_r (Inr (phen_eos veos)) (\<lambda>eos.
     bind_r (phen_los da eos sos) (\<lambda>los.
     bind_r (Inr (phen_rog vpos (map fst vsos) (map dayofyear pos) sos)) (\<lambda>rog.
     bind_r (Inr (phen_ros (map fst veos) vpos eos (map dayofyear pos))) (\<lambda>ros.
     Inr [(''SOS'', mk_layer da (Ints (map int16 sos))),
          (''EOS'', mk_layer da (Ints (map int16 eos))),
          (''vSOS'', mk_layer da (Floats (map fst vsos))),
          (''vPOS'', mk_layer da (Floats vpos)),
          (''Trough'', mk_layer da (Floats trough)),
          (''POS'', mk_layer da (Ints (map (\<lambda>t. int16 (dayofyear t)) pos))),
          (''vEOS'', mk_layer da (Floats (map fst veos))),
          (''LOS'', mk_layer da (Ints (map int16 los))),
          (''AOS'', mk_layer da (Floats aos)),
          (''ROG'', mk_layer da (Floats rog)),
          (''ROS'', mk_layer da (Floats ros))])))))))))))"

text \<open>
  The Dataset starts from \<^verbatim>\<open>stats[0]\<close> (IndexError on an empty list) and takes
  the other names in turn; a name the dictionary does not hold raises KeyError.
\<close>

fun add_stats :: "(string \<times> layer) list \<Rightarrow> string list \<Rightarrow> (string \<times> layer) list \<Rightarrow> error + (string \<times> layer) list" where
  "add_stats stats_dict [] ds = Inr ds"
| "add_stats stats_dict (stat # rest) ds =
     bind_r (dict_get stats_dict stat) (\<lambda>l. add_stats stats_dict rest (AList.update stat l ds))"

definition build_dataset :: "(string \<times> layer) list \<Rightarrow> string list \<Rightarrow> error + (string \<times> layer) list" where
  "build_dataset stats_dict stats =
     (case stats of [] \<Rightarrow> Inl IndexError
      | s0 # rest \<Rightarrow> bind_r (dict_get stats_dict s0) (\<lambda>l0. add_stats stats_dict rest [(s0, l0)]))"

definition xr_phenology :: "hdstats \<Rightarrow> int \<Rightarrow> dataarray \<Rightarrow> stats_arg \<Rightarrow> string \<Rightarrow> string \<Rightarrow> bool \<Rightarrow> error + (string \<times> layer) list" where
  "xr_phenology lib nan16 da stats method_sos method_eos complete_smooth =
     (if da_dask da then Inl TypeError
      else if method_sos \<noteq> ''median'' \<and> method_sos \<noteq> ''first'' then Inl ValueError
      else if method_eos \<noteq> ''median'' \<and> method_eos \<noteq> ''last'' then Inl ValueError
      else
        bind_r (prepare lib da complete_smooth) (\<lambda>da'.
        bind_r (phen_stats_dict nan16 da' method_sos method_eos) (\<lambda>stats_dict.
        build_dataset stats_dict (as_list stats))))"

section \<open>temporal_statistics\<close>

text \<open>
  The dictionary of closures over \<^verbatim>\<open>hdstats\<close>. \<^verbatim>\<open>[:,:,k]\<close> takes entry \<open>k\<close> of
  every pixel's vector. \<^verbatim>\<open>stats_dict.get\<close> gives None for a name the dictionary
  does not hold, and calling None raises TypeError. Every result is wrapped in a
  DataArray with the coordinates and attributes of the input.
\<close>

definition column :: "nat \<Rightarrow> val list list \<Rightarrow> error + val list" where
  "column k arr = map_r (\<lambda>p. py_index p (int k)) arr"

definition ts_stats_dict :: "hdstats \<Rightarrow> (string \<times> (val list list \<Rightarrow> error + val list)) list" where
  "ts_stats_dict lib =
     [(''discordance'', \<lambda>da. Inr (discordance lib da 10)),
      (''f_std_n1'', \<lambda>da. column 0 (fourier_std lib da 3 5)),
      (''f_std_n2'', \<lambda>da. column 1 (fourier_std lib da 3 5)),
      (''f_std_n3'', \<lambda>da. column 2 (fourier_std lib da 3 5)),
      (''f_mean_n1'', \<lambda>da. column 0 (fourier_mean lib da 3 5)),
      (''f_mean_n2'', \<lambda>da. column 1 (fourier_mean lib da 3 5)),
      (''f_mean_n3'', \<lambda>da. column 2 (fourier_mean lib da 3 5)),
      (''f_median_n1'', \<lambda>da. column 0 (fourier_median lib da 3 5)),
      (''f_median_n2'', \<lambda>da. column 1 (fourier_median lib da 3 5)),
      (''f_median_n3'', \<lambda>da. column 2 (fourier_median lib da 3 5)),
      (''mean_change'', \<lambda>da. Inr (mean_change lib da)),
      (''median_change'', \<lambda>da. Inr (median_change lib da)),
      (''abs_change'', \<lambda>da. Inr (mean_abs_change lib da)),
      (''complexity'', \<lambda>da. Inr (complexity lib da)),
      (''central_diff'', \<lambda>da. Inr (mean_central_diff lib da)),
      (''num_peaks'', \<lambda>da. Inr (number_peaks lib da 10))]"

definition ts_layer :: "dataarray \<Rightarrow> val list \<Rightarrow> error + layer" where
  "ts_layer da arr =
     (if length arr = length (da_y da) * length (da_x da)
      then Inr \<lparr>l_x = da_x da, l_y = da_y da, l_attrs = da_attrs da, l_data = Floats arr\<rparr>
      else Inl ValueError)"

definition ts_stat :: "hdstats \<Rightarrow> dataarray \<Rightarrow> val list list \<Rightarrow> string \<Rightarrow> error + layer" where
  "ts_stat lib da arr stat =
     (case map_of (ts_stats_dict lib) stat of None \<Rightarrow> Inl TypeError
      | Some stat_func \<Rightarrow> bind_r (stat_func arr) (ts_layer da))"

fun ts_add :: "hdstats \<Rightarrow> dataarray \<Rightarrow> val list list \<Rightarrow> string list \<Rightarrow> (string \<times> layer) list \<Rightarrow> error + (string \<times> layer) list" where
  "ts_add lib da arr [] ds = Inr ds"
| "ts_add lib da arr (stat # rest) ds =
     bind_r (ts_stat lib da arr stat) (\<lambda>l. ts_add lib da arr rest (AList.update stat l ds))"

definition temporal_statistics :: "hdstats \<Rightarrow> dataarray \<Rightarrow> stats_arg \<Rightarrow> error + (string \<times> layer) list" where
  "temporal_statistics lib da stats =
     (let arr = fast_completion lib (da_values da) in
      case as_list stats of [] \<Rightarrow> Inl IndexError
      | s0 # rest \<Rightarrow> bind_r (ts_stat lib da arr s0) (\<lambda>l0. ts_add lib da arr rest [(s0, l0)]))"

section \<open>The vocabulary and example inputs\<close>


text \<open>The requested names in the order of their first request.\<close>

definition first_requests :: "string list \<Rightarrow> string list" where
  "first_requests stats = rev (remdups (rev stats))"

text \<open>
  A stand-in for \<^verbatim>\<open>hdstats\<close> that leaves the series as they are, and small
  volumes: one row of pixels, the time steps given as (stamp, day of year).
\<close>

definition example_lib :: hdstats where
  "example_lib =
     \<lparr>fast_completion = (\<lambda>a. a), smooth = (\<lambda>a. a),
      discordance = (\<lambda>a n. map (\<lambda>s. Some 0) a),
      fourier_std = (\<lambda>a n k. map (\<lambda>s. [Some 1, Some 2, Some 3]) a),
      fourier_mean = (\<lambda>a n k. map (\<lambda>s. [Some 1, Some 2, Some 3]) a),
      fourier_median = (\<lambda>a n k. map (\<lambda>s. [Some 1, Some 2, Some 3]) a),
      mean_change = map (\<lambda>s. Some 0), median_change = map (\<lambda>s. Some 0),
      mean_abs_change = map (\<lambda>s. Some 0), complexity = map (\<lambda>s. Some 0),
      mean_central_diff = map (\<lambda>s. Some 0),
      number_peaks = (\<lambda>a n. map (\<lambda>s. Some 0) a)\<rparr>"

definition volume :: "bool \<Rightarrow> (int \<times> int) list \<Rightarrow> val list list \<Rightarrow> dataarray" where
  "volume lazy steps series =
     \<lparr>da_dask = lazy, da_x = map real [0..<length series], da_y = [0],
      da_time = map (\<lambda>(s, d). \<lparr>stamp = s, dayofyear = d\<rparr>) steps,
      da_attrs = [(''crs'', ''EPSG:6933'')], da_values = series\<rparr>"

text \<open>A series that only rises, on days 1, 2, 3: it has no senescing segment.\<close>

definition rising :: "val list" where
  "rising = [Some 1, Some 2, Some 3]"

definition three_days :: "(int \<times> int) list" where
  "three_days = [(1, 1), (2, 2), (3, 3)]"

text \<open>The scenario of the specification: eight observations between days 1 and 210.\<close>

definition season :: "val list" where
  "season = [Some 0.1, Some 0.2, Some 0.5, Some 0.9, Some 0.95, Some 0.6, Some 0.3, Some 0.1]"

definition eight_days :: "(int \<times> int) list" where
  "eight_days = [(1, 1), (30, 30), (60, 60), (90, 90), (120, 120), (150, 150), (180, 180), (210, 210)]"

text \<open>
  A record that runs over the turn of the year, on days 300, 340, 15, 55 and 100,
  with a season that rises twice to its peak and falls twice after it.
\<close>

definition across_years :: "(int \<times> int) list" where
  "across_years = [(0, 300), (40, 340), (80, 15), (120, 55), (165, 100)]"

definition late_season :: "val list" where
  "late_season = [Some 1, Some 2, Some 9, Some 3, Some 0]"

text \<open>Four days, a series that only rises, and one that peaks on the second day.\<close>

definition four_days :: "(int \<times> int) list" where
  "four_days = [(1, 1), (2, 2), (3, 3), (4, 4)]"

definition rising4 :: "val list" where
  "rising4 = [Some 1, Some 2, Some 3, Some 4]"

definition early_peak :: "val list" where
  "early_peak = [Some 1, Some 4, Some 3, Some 2]"

section \<open>Properties of allNaN_arg\<close>

lemma bind_r_Inr_iff: "bind_r m f = Inr y \<longleftrightarrow> (\<exists>v. m = Inr v \<and> f v = Inr y)"
  by (cases m) (simp_all add: bind_r_def)

lemma bind_r_simps: "bind_r (Inl e) f = Inl e" "bind_r (Inr v) f = f v"
  by (simp_all add: bind_r_def)

text \<open>
  C10. Called with a \<open>stat\<close> that is neither \<^verbatim>\<open>'max'\<close> nor \<^verbatim>\<open>'min'\<close>, allNaN_arg
  returns None: no error is raised and no index array is produced, whatever the array.
\<close>

theorem allNaN_arg_other_stat:
  "stat \<noteq> ''max'' \<Longrightarrow> stat \<noteq> ''min'' \<Longrightarrow> allNaN_arg da stat = Inr None"
  by (simp add: allNaN_arg_def)

theorem allNaN_arg_other_stat_witness:
  "allNaN_arg [[Some 1, None], [None, None]] ''median'' = Inr None"
  using allNaN_arg_other_stat [of "''median''" "[[Some 1, None], [None, None]]"] by simp

text \<open>
  C5. The claim: on a slice made of missing values only, allNaN_arg ('max' or 'min')
  returns a missing result, not an error. The code: when every slice of the array is
  all-missing (a single all-NaN series is the smallest case) the fill value, taken
  from the minimum or maximum of the whole array, is NaN itself, nothing is filled,
  and the argmax or argmin raises ValueError.
\<close>

theorem allNaN_arg_all_missing_raises:
  "allNaN_arg [[None, None, None]] ''max'' = Inl ValueError \<and>
   allNaN_arg [[None, None, None]] ''min'' = Inl ValueError"
  by code_simp

section \<open>Properties of xr_phenology\<close>

text \<open>
  C1. The claim: a pixel whose senescing segment has no falling point gets a missing
  EOS and vEOS, and missing LOS and ROS, and no exception is raised. The code: on the
  one-pixel volume holding the rising series 1, 2, 3 the senescing segment is empty,
  every distance is NaN, allNaN_arg fills nothing and xr_phenology raises ValueError,
  under either mode and whatever the completion library.
\<close>

theorem xr_phenology_rising_raises:
  "xr_phenology lib nan16 (volume False three_days [rising])
     (Listed [''EOS'', ''vEOS'', ''LOS'', ''ROS'']) ''median'' ''median'' False = Inl ValueError \<and>
   xr_phenology lib nan16 (volume False three_days [rising])
     (Listed [''EOS'', ''vEOS'', ''LOS'', ''ROS'']) ''first'' ''last'' False = Inl ValueError"
  by code_simp

text \<open>
  Beside a pixel that has a senescing segment a rising pixel raises nothing, but
  its masked index is cast to \<^verbatim>\<open>int16\<close>: where the cast of NaN gives 0, EOS is
  the day of the first time step and LOS is 0, neither of them missing.
\<close>

lemma xr_phenology_rising_beside_other:
  "xr_phenology lib 0 (volume False four_days [rising4, early_peak])
     (Listed [''EOS'', ''vEOS'', ''LOS'', ''ROS'']) ''first'' ''last'' False =
   Inr [(''EOS'', \<lparr>l_x = [0, 1], l_y = [0], l_attrs = [], l_data = Ints [1, 4]\<rparr>),
        (''vEOS'', \<lparr>l_x = [0, 1], l_y = [0], l_attrs = [], l_data = Floats [None, Some 2]\<rparr>),
        (''LOS'', \<lparr>l_x = [0, 1], l_y = [0], l_attrs = [], l_data = Ints [0, 3]\<rparr>),
        (''ROS'', \<lparr>l_x = [0, 1], l_y = [0], l_attrs = [], l_data = Floats [None, Some (- 1)]\<rparr>)]"
  by code_simp

text \<open>
  A senescing segment that is not empty but never falls (1, 9, 9, 9) keeps all its
  points, since the slope filter reads NaN as true: EOS and vEOS are defined.
\<close>

lemma xr_phenology_flat_after_peak:
  "xr_phenology lib nan16 (volume False [(0, 1), (100, 100), (200, 200), (300, 300)]
       [[Some 1, Some 9, Some 9, Some 9]])
     (Listed [''EOS'', ''vEOS'']) ''median'' ''last'' False =
   Inr [(''EOS'', \<lparr>l_x = [0], l_y = [0], l_attrs = [], l_data = Ints [200]\<rparr>),
        (''vEOS'', \<lparr>l_x = [0], l_y = [0], l_attrs = [], l_data = Floats [Some 9]\<rparr>)]"
  by code_simp

text \<open>
  C3. xr_phenology checks its arguments before anything else: a dask-backed input
  fails with TypeError (UnsupportedInputKind), and on a materialised input a
  \<open>method_sos\<close> outside median, first or a \<open>method_eos\<close> outside median, last
  fails with ValueError (InvalidArgument). The outcome depends on nothing else: not on
  the data, the requested names or the completion library, so no work is done before.
\<close>

theorem xr_phenology_validates_first:
  "(da_dask da \<longrightarrow>
      xr_phenology lib nan16 da stats method_sos method_eos complete_smooth = Inl TypeError) \<and>
   (\<not> da_dask da \<and> (method_sos \<notin> {''first'', ''median''} \<or> method_eos \<notin> {''last'', ''median''}) \<longrightarrow>
      xr_phenology lib nan16 da stats method_sos method_eos complete_smooth = Inl ValueError)"
  by (auto simp: xr_phenology_def)

theorem xr_phenology_validates_first_witness:
  "xr_phenology example_lib 0 (volume True eight_days [season]) (Listed [''SOS''])
     ''median'' ''median'' True = Inl TypeError \<and>
   xr_phenology example_lib 0 (volume False eight_days [season]) (Listed [''SOS''])
     ''last'' ''median'' True = Inl ValueError \<and>
   xr_phenology example_lib 0 (volume False eight_days [season]) (Listed [''SOS''])
     ''median'' ''first'' True = Inl ValueError"
  using xr_phenology_validates_first [of "volume True eight_days [season]" example_lib 0
      "Listed [''SOS'']" "''median''" "''median''" True]
    xr_phenology_validates_first [of "volume False eight_days [season]" example_lib 0
      "Listed [''SOS'']" "''last''" "''median''" True]
    xr_phenology_validates_first [of "volume False eight_days [season]" example_lib 0
      "Listed [''SOS'']" "''median''" "''first''" True]
  by (simp add: volume_def)


section \<open>Assembling the requested statistics\<close>



lemma first_requests_distinct: "distinct xs \<Longrightarrow> first_requests xs = xs"
  by (simp add: first_requests_def distinct_remdups_id)









lemma xr_phenology_Inr:
  "xr_phenology lib nan16 da stats method_sos method_eos cs = Inr ds \<Longrightarrow>
   \<not> da_dask da \<and> (method_sos = ''median'' \<or> method_sos = ''first'') \<and>
   (method_eos = ''median'' \<or> method_eos = ''last'') \<and>
   (\<exists>da' sd. prepare lib da cs = Inr da' \<and> phen_stats_dict nan16 da' method_sos method_eos = Inr sd \<and>
        build_dataset sd (as_list stats) = Inr ds)"
  by (auto simp: xr_phenology_def bind_r_Inr_iff split: if_splits)




section \<open>Reductions over the prepared volume\<close>

lemma map_r_Inr: "map_r f xs = Inr ys \<longleftrightarrow> list_all2 (\<lambda>x y. f x = Inr y) xs ys"
proof (induction xs arbitrary: ys)
  case Nil
  then show ?case by auto
next
  case (Cons a as)
  show ?case
    using Cons.IH
    by (cases "f a"; cases "map_r f as") (auto simp: list_all2_Cons1)
qed

lemma set_present: "set (present vs) = {r. Some r \<in> set vs}"
  by (induction vs rule: present.induct) auto

lemma present_Nil_iff: "present vs = [] \<longleftrightarrow> (\<forall>v \<in> set vs. v = None)"
  by (induction vs rule: present.induct) auto

lemma fold_max_Max: "fold max rs (r::real) = Max (set (r # rs))"
  by (rule Max.set_eq_fold [symmetric])

lemma fold_min_Min: "fold min rs (r::real) = Min (set (r # rs))"
  by (rule Min.set_eq_fold [symmetric])

lemma nanmax_present:
  assumes "present vs \<noteq> []"
  shows "nanmax vs = Inr (Some (Max {r. Some r \<in> set vs}))"
proof -
  from assms obtain r rs where p: "present vs = r # rs" by (cases "present vs") auto
  then have "vs \<noteq> []" by auto
  moreover have "fold max rs r = Max {r. Some r \<in> set vs}"
    using p set_present [of vs] by (simp add: fold_max_Max)
  ultimately show ?thesis using p by (simp add: nanmax_def)
qed

lemma nanmin_present:
  assumes "present vs \<noteq> []"
  shows "nanmin vs = Inr (Some (Min {r. Some r \<in> set vs}))"
proof -
  from assms obtain r rs where p: "present vs = r # rs" by (cases "present vs") auto
  then have "vs \<noteq> []" by auto
  moreover have "fold min rs r = Min {r. Some r \<in> set vs}"
    using p set_present [of vs] by (simp add: fold_min_Min)
  ultimately show ?thesis using p by (simp add: nanmin_def)
qed

lemma first_index_first:
  "a \<in> set xs \<Longrightarrow>
   first_index a xs < length xs \<and> xs ! first_index a xs = a \<and> (\<forall>j < first_index a xs. xs ! j \<noteq> a)"
proof (induction xs)
  case Nil
  then show ?case by simp
next
  case (Cons b bs)
  show ?case
  proof (cases "a = b")
    case True
    then show ?thesis by simp
  next
    case False
    with Cons show ?thesis by (auto simp: nth_Cons split: nat.splits)
  qed
qed

lemma nanargmax_present:
  assumes "present vs \<noteq> []"
  shows "\<exists>i. nanargmax vs = Inr i \<and> i < length vs \<and> vs ! i = Some (Max {r. Some r \<in> set vs}) \<and>
             (\<forall>j < i. vs ! j \<noteq> Some (Max {r. Some r \<in> set vs}))"
proof -
  from assms obtain r rs where p: "present vs = r # rs" by (cases "present vs") auto
  have m: "fold max rs r = Max {r. Some r \<in> set vs}"
    using p set_present [of vs] by (simp add: fold_max_Max)
  have fin: "finite {r. Some r \<in> set vs}" "{r. Some r \<in> set vs} \<noteq> {}"
    using p set_present [of vs] by (metis List.finite_set, auto)
  from Max_in [OF fin] have "Some (Max {r. Some r \<in> set vs}) \<in> set vs" by simp
  from first_index_first [OF this] show ?thesis using p m by (simp add: nanargmax_def)
qed

lemma zero_fill_present: "s \<noteq> [] \<Longrightarrow> present (zero_fill s) \<noteq> []"
  by (cases s) (auto simp: zero_fill_def all_null_def)

lemma prepare_Inr:
  "prepare lib da cs = Inr da' \<Longrightarrow>
   da_time da' = da_time da \<and> da_x da' = da_x da \<and> da_y da' = da_y da \<and>
   da_attrs da' = da_attrs da \<and>
   da_values da' = map zero_fill (if cs then smooth lib (fast_completion lib (da_values da)) else da_values da)"
  by (auto simp: prepare_def rebuild_def bind_r_Inr_iff Let_def split: if_splits)

lemma phen_stats_dict_Inr:
  "phen_stats_dict nan16 da method_sos method_eos = Inr sd \<Longrightarrow>
   \<exists>vpos pos trough vsos veos los.
     phen_vpos da = Inr vpos \<and> phen_pos da = Inr pos \<and> phen_trough da = Inr trough \<and>
     phen_vsos nan16 da pos method_sos = Inr vsos \<and> phen_veos nan16 da pos method_eos = Inr veos \<and>
     phen_los da (phen_eos veos) (phen_sos vsos) = Inr los \<and>
     sd = [(''SOS'', mk_layer da (Ints (map int16 (phen_sos vsos)))),
          (''EOS'', mk_layer da (Ints (map int16 (phen_eos veos)))),
          (''vSOS'', mk_layer da (Floats (map fst vsos))),
          (''vPOS'', mk_layer da (Floats vpos)),
          (''Trough'', mk_layer da (Floats trough)),
          (''POS'', mk_layer da (Ints (map (\<lambda>t. int16 (dayofyear t)) pos))),
          (''vEOS'', mk_layer da (Floats (map fst veos))),
          (''LOS'', mk_layer da (Ints (map int16 los))),
          (''AOS'', mk_layer da (Floats (phen_aos vpos trough))),
          (''ROG'', mk_layer da (Floats (phen_rog vpos (map fst vsos) (map dayofyear pos) (phen_sos vsos)))),
          (''ROS'', mk_layer da (Floats (phen_ros (map fst veos) vpos (phen_eos veos) (map dayofyear pos))))]"
  by (auto simp: phen_stats_dict_def bind_r_Inr_iff)

lemma add_stats_from_dict:
  "add_stats sd rest ds0 = Inr ds \<Longrightarrow> (\<forall>k l. map_of ds0 k = Some l \<longrightarrow> map_of sd k = Some l) \<Longrightarrow>
   map_of ds k = Some l \<Longrightarrow> map_of sd k = Some l"
proof (induction rest arbitrary: ds0)
  case Nil
  then show ?case by simp
next
  case (Cons stat rest)
  from Cons.prems(1) obtain l' where l': "dict_get sd stat = Inr l'"
    "add_stats sd rest (AList.update stat l' ds0) = Inr ds"
    by (auto simp: bind_r_Inr_iff)
  from l'(1) have "map_of sd stat = Some l'" by (auto simp: dict_get_def split: option.splits)
  with Cons.prems(2) have "\<forall>k l. map_of (AList.update stat l' ds0) k = Some l \<longrightarrow> map_of sd k = Some l"
    by (auto simp: AList.update_conv')
  from Cons.IH [OF l'(2) this Cons.prems(3)] show ?case .
qed

lemma build_dataset_from_dict:
  "build_dataset sd stats = Inr ds \<Longrightarrow> map_of ds k = Some l \<Longrightarrow> map_of sd k = Some l"
proof -
  assume b: "build_dataset sd stats = Inr ds" and m: "map_of ds k = Some l"
  from b obtain s0 rest l0 where "stats = s0 # rest" "dict_get sd s0 = Inr l0"
    "add_stats sd rest [(s0, l0)] = Inr ds"
    by (cases stats) (auto simp: build_dataset_def bind_r_Inr_iff)
  moreover from this have "map_of sd s0 = Some l0" by (auto simp: dict_get_def split: option.splits)
  ultimately show ?thesis using add_stats_from_dict [of sd rest "[(s0, l0)]" ds k l] m by auto
qed

lemma list_all2_map_eq: "list_all2 (\<lambda>x y. y = g x) xs ys \<Longrightarrow> ys = map g xs"
  by (induction rule: list_all2_induct) simp_all

lemma list_all2_choose:
  "list_all2 (\<lambda>x y. \<exists>z. P x z \<and> y = g z) xs ys \<Longrightarrow> \<exists>zs. list_all2 P xs zs \<and> ys = map g zs"
proof (induction rule: list_all2_induct)
  case Nil
  then show ?case by simp
next
  case (Cons x xs y ys)
  from Cons.hyps(1) obtain z where z: "P x z" "y = g z" by (elim exE conjE)
  from Cons.IH obtain zs where zs: "list_all2 P xs zs" "ys = map g zs" by (elim exE conjE)
  from z zs have "list_all2 P (x # xs) (z # zs) \<and> y # ys = map g (z # zs)" by simp
  then show ?case by (rule exI)
qed

lemma nanmax_zero_fill:
  "nanmax (zero_fill s) = Inr y \<Longrightarrow> y = Some (Max {r. Some r \<in> set (zero_fill s)})"
proof (cases "s = []")
  case True
  assume "nanmax (zero_fill s) = Inr y"
  with True show ?thesis by (simp add: nanmax_def zero_fill_def all_null_def)
next
  case False
  assume a: "nanmax (zero_fill s) = Inr y"
  from nanmax_present [OF zero_fill_present [OF False]] a show ?thesis by simp
qed


lemma py_index_nat: "py_index xs (int i) = Inr t \<Longrightarrow> i < length xs \<and> t = xs ! i"
  by (simp add: py_index_def split: if_splits)

lemma py_index_mem: "py_index xs i = Inr t \<Longrightarrow> t \<in> set xs"
  by (auto simp: py_index_def split: if_splits)

lemma int16_id: "- 32768 \<le> i \<Longrightarrow> i < 32768 \<Longrightarrow> int16 i = i"
  by (simp add: int16_def)

lemma phen_vpos_prepared:
  assumes "phen_vpos da = Inr vpos" "da_values da = map zero_fill w"
  shows "vpos = map (\<lambda>s. Some (Max {r. Some r \<in> set s})) (da_values da)"
proof -
  from assms(1) have "list_all2 (\<lambda>s y. nanmax s = Inr y) (da_values da) vpos"
    by (simp add: phen_vpos_def map_r_Inr split: if_splits)
  then have "list_all2 (\<lambda>s y. y = Some (Max {r. Some r \<in> set s})) (da_values da) vpos"
    unfolding assms(2) list_all2_conv_all_nth
    by (simp add: nanmax_zero_fill)
  then show ?thesis by (rule list_all2_map_eq)
qed


lemma nanargmax_Inr:
  assumes "nanargmax vs = Inr i"
  shows "i < length vs \<and> vs ! i = Some (Max {r. Some r \<in> set vs}) \<and>
         (\<forall>j < i. vs ! j \<noteq> Some (Max {r. Some r \<in> set vs}))"
proof -
  from assms have "present vs \<noteq> []" by (auto simp: nanargmax_def split: list.splits)
  from nanargmax_present [OF this] assms show ?thesis by auto
qed

lemma phen_pos_Inr:
  assumes "phen_pos da = Inr pos"
  shows "\<exists>peak. pos = map (\<lambda>i. da_time da ! i) peak \<and>
           list_all2 (\<lambda>s i. i < length (da_time da) \<and> i < length s \<and>
                          s ! i = Some (Max {r. Some r \<in> set s}) \<and>
                          (\<forall>j < i. s ! j \<noteq> Some (Max {r. Some r \<in> set s})))
             (da_values da) peak"
proof -
  let ?P = "\<lambda>s i. i < length (da_time da) \<and> i < length s \<and>
                          s ! i = Some (Max {r. Some r \<in> set s}) \<and>
                          (\<forall>j < i. s ! j \<noteq> Some (Max {r. Some r \<in> set s}))"
  have step: "\<exists>i. ?P s i \<and> t = da_time da ! i"
    if "bind_r (nanargmax s) (\<lambda>i. py_index (da_time da) (int i)) = Inr t" for s t
  proof -
    from that obtain i where i: "nanargmax s = Inr i" "py_index (da_time da) (int i) = Inr t"
      unfolding bind_r_Inr_iff by (elim exE conjE)
    from nanargmax_Inr [OF i(1)] py_index_nat [OF i(2)] have "?P s i \<and> t = da_time da ! i"
      by simp
    then show ?thesis by (rule exI)
  qed
  from assms have "list_all2 (\<lambda>s t. bind_r (nanargmax s) (\<lambda>i. py_index (da_time da) (int i)) = Inr t)
      (da_values da) pos"
    by (simp add: phen_pos_def map_r_Inr split: if_splits)
  then have "list_all2 (\<lambda>s t. \<exists>i. ?P s i \<and> t = da_time da ! i) (da_values da) pos"
    by (rule list_all2_mono) (rule step)
  from list_all2_choose [OF this] obtain peak where
    "list_all2 ?P (da_values da) peak" "pos = map (\<lambda>i. da_time da ! i) peak"
    by (elim exE conjE)
  then have "pos = map (\<lambda>i. da_time da ! i) peak \<and> list_all2 ?P (da_values da) peak" by simp
  then show ?thesis by (rule exI)
qed

lemma doy_int16:
  assumes "doy_ok da" "t \<in> set (da_time da)"
  shows "int16 (dayofyear t) = dayofyear t" "1 \<le> dayofyear t" "dayofyear t \<le> 366"
  using assms by (auto simp: doy_ok_def list_all_iff intro!: int16_id)

lemma xr_phenology_layers:
  assumes run: "xr_phenology lib nan16 da stats method_sos method_eos cs = Inr ds"
    and prep: "prepare lib da cs = Inr da'"
  shows "\<exists>sd. phen_stats_dict nan16 da' method_sos method_eos = Inr sd \<and>
              (\<forall>k l. map_of ds k = Some l \<longrightarrow> map_of sd k = Some l)"
proof -
  from xr_phenology_Inr [OF run] prep obtain sd where
    sd: "phen_stats_dict nan16 da' method_sos method_eos = Inr sd"
    and b: "build_dataset sd (as_list stats) = Inr ds"
    by auto
  from sd build_dataset_from_dict [OF b] show ?thesis by blast
qed

text \<open>
  C7. For every pixel of the prepared volume (completed and smoothed if asked, all-NaN
  pixels set to zero), vPOS is the maximum of the series over time, and POS is the day
  of year of the first time step at which the series attains that maximum. The days
  of year lie between 1 and 366, so the cast to \<^verbatim>\<open>int16\<close> leaves POS as it is.
\<close>

theorem peak_value_and_day:
  assumes run: "xr_phenology lib nan16 da stats method_sos method_eos cs = Inr ds"
    and prep: "prepare lib da cs = Inr da'"
    and doy: "doy_ok da"
  shows "(\<forall>l. map_of ds ''vPOS'' = Some l \<longrightarrow>
            l_data l = Floats (map (\<lambda>s. Some (Max {r. Some r \<in> set s})) (da_values da'))) \<and>
         (\<forall>l. map_of ds ''POS'' = Some l \<longrightarrow>
            (\<exists>peak. l_data l = Ints (map (\<lambda>i. dayofyear (da_time da ! i)) peak) \<and>
               list_all2 (\<lambda>s i. i < length (da_time da) \<and> i < length s \<and>
                              s ! i = Some (Max {r. Some r \<in> set s}) \<and>
                              (\<forall>j < i. s ! j \<noteq> Some (Max {r. Some r \<in> set s})))
                 (da_values da') peak))"
proof -
  let ?P = "\<lambda>s i. i < length (da_time da) \<and> i < length s \<and>
                 s ! i = Some (Max {r. Some r \<in> set s}) \<and>
                 (\<forall>j < i. s ! j \<noteq> Some (Max {r. Some r \<in> set s}))"
  from xr_phenology_layers [OF run prep] obtain sd where
    sd: "phen_stats_dict nan16 da' method_sos method_eos = Inr sd"
    and sub: "\<And>k l. map_of ds k = Some l \<Longrightarrow> map_of sd k = Some l"
    by blast
  from phen_stats_dict_Inr [OF sd] obtain vpos pos where
    vpos: "phen_vpos da' = Inr vpos" and pos: "phen_pos da' = Inr pos"
    and v: "map_of sd ''vPOS'' = Some (mk_layer da' (Floats vpos))"
    and p: "map_of sd ''POS'' = Some (mk_layer da' (Ints (map (\<lambda>t. int16 (dayofyear t)) pos)))"
    by auto
  from prepare_Inr [OF prep] have tm: "da_time da' = da_time da"
    and vals: "da_values da' =
      map zero_fill (if cs then smooth lib (fast_completion lib (da_values da)) else da_values da)"
    by simp_all
  from phen_vpos_prepared [OF vpos vals]
  have vp: "vpos = map (\<lambda>s. Some (Max {r. Some r \<in> set s})) (da_values da')" .
  from phen_pos_Inr [OF pos] obtain peak where
    peak: "pos = map (\<lambda>i. da_time da ! i) peak" "list_all2 ?P (da_values da') peak"
    unfolding tm by (elim exE conjE)
  have inr: "i < length (da_time da)" if "i \<in> set peak" for i
    using peak(2) that unfolding list_all2_conv_all_nth in_set_conv_nth by auto
  have "map (\<lambda>t. int16 (dayofyear t)) pos = map (\<lambda>i. dayofyear (da_time da ! i)) peak"
    unfolding peak(1) map_map comp_def
    by (rule map_cong [OF refl]) (simp add: doy_int16 [OF doy] inr)
  with p have p': "map_of sd ''POS'' =
      Some (mk_layer da' (Ints (map (\<lambda>i. dayofyear (da_time da ! i)) peak)))"
    by simp
  have one: "l_data l = Floats (map (\<lambda>s. Some (Max {r. Some r \<in> set s})) (da_values da'))"
    if "map_of ds ''vPOS'' = Some l" for l
  proof -
    from sub [OF that] v have "l = mk_layer da' (Floats vpos)" by simp
    then show ?thesis by (simp add: mk_layer_def vp)
  qed
  have two: "\<exists>peak. l_data l = Ints (map (\<lambda>i. dayofyear (da_time da ! i)) peak) \<and>
               list_all2 ?P (da_values da') peak"
    if "map_of ds ''POS'' = Some l" for l
  proof -
    from sub [OF that] p' have "l = mk_layer da' (Ints (map (\<lambda>i. dayofyear (da_time da ! i)) peak))"
      by simp
    then have "l_data l = Ints (map (\<lambda>i. dayofyear (da_time da ! i)) peak)"
      by (simp add: mk_layer_def)
    with peak(2) have "l_data l = Ints (map (\<lambda>i. dayofyear (da_time da ! i)) peak) \<and>
               list_all2 ?P (da_values da') peak" by simp
    then show ?thesis by (rule exI)
  qed
  from one two show ?thesis by simp
qed

theorem peak_value_and_day_witness:
  "xr_phenology example_lib 0 (volume False eight_days [season]) (Listed [''vPOS'', ''POS''])
     ''median'' ''median'' True =
   Inr [(''vPOS'', \<lparr>l_x = [0], l_y = [0], l_attrs = [], l_data = Floats [Some 0.95]\<rparr>),
        (''POS'', \<lparr>l_x = [0], l_y = [0], l_attrs = [], l_data = Ints [120]\<rparr>)] \<and>
   [Some 0.95] = map (\<lambda>s. Some (Max {r. Some r \<in> set s})) [season] \<and>
   (\<exists>peak. [120] = map (\<lambda>i. dayofyear (da_time (volume False eight_days [season]) ! i)) peak \<and>
      list_all2 (\<lambda>s i. i < length (da_time (volume False eight_days [season])) \<and> i < length s \<and>
                     s ! i = Some (Max {r. Some r \<in> set s}) \<and>
                     (\<forall>j < i. s ! j \<noteq> Some (Max {r. Some r \<in> set s})))
        [season] peak)"
proof -
  have run: "xr_phenology example_lib 0 (volume False eight_days [season]) (Listed [''vPOS'', ''POS''])
     ''median'' ''median'' True =
   Inr [(''vPOS'', \<lparr>l_x = [0], l_y = [0], l_attrs = [], l_data = Floats [Some 0.95]\<rparr>),
        (''POS'', \<lparr>l_x = [0], l_y = [0], l_attrs = [], l_data = Ints [120]\<rparr>)]"
    by code_simp
  have prep: "prepare example_lib (volume False eight_days [season]) True =
      Inr (volume False eight_days [season])"
    by code_simp
  have doy: "doy_ok (volume False eight_days [season])"
    by code_simp
  have vals: "da_values (volume False eight_days [season]) = [season]"
    by (simp add: volume_def)
  from peak_value_and_day [OF run prep doy] run show ?thesis
    unfolding vals by simp
qed




section \<open>Start, end and length of season\<close>

lemma map_r_mem: "map_r f xs = Inr ys \<Longrightarrow> y \<in> set ys \<Longrightarrow> \<exists>x. x \<in> set xs \<and> f x = Inr y"
  unfolding map_r_Inr by (induction rule: list_all2_induct) auto

lemma isel_time_mem:
  assumes "isel_time ts arr idx = Inr r" "p \<in> set r"
  shows "snd p \<in> set ts"
proof -
  from map_r_mem [OF assms(1) [unfolded isel_time_def] assms(2)] obtain q where
    "bind_r (py_index (fst q) (snd q)) (\<lambda>v. bind_r (py_index ts (snd q))
      (\<lambda>t. Inr (v, t))) = Inr p"
    by (auto simp: case_prod_unfold)
  then obtain v t where "py_index ts (snd q) = Inr t" "p = (v, t)"
    unfolding bind_r_Inr_iff by auto
  then show ?thesis by (simp add: py_index_mem)
qed

lemma phen_vsos_times:
  assumes "phen_vsos nan16 da pos method_sos = Inr vsos" "p \<in> set vsos"
  shows "snd p \<in> set (da_time da)"
proof -
  from assms(1) obtain arr idx where "isel_time (da_time da) arr idx = Inr vsos"
    unfolding phen_vsos_def Let_def bind_r_Inr_iff by (elim exE conjE)
  from isel_time_mem [OF this assms(2)] show ?thesis .
qed

lemma phen_veos_times:
  assumes "phen_veos nan16 da pos method_eos = Inr veos" "p \<in> set veos"
  shows "snd p \<in> set (da_time da)"
proof -
  from assms(1) obtain arr idx where "isel_time (da_time da) arr idx = Inr veos"
    unfolding phen_veos_def Let_def bind_r_Inr_iff by (elim exE conjE)
  from isel_time_mem [OF this assms(2)] show ?thesis .
qed

lemma phen_los_Inr:
  assumes "phen_los da eos sos = Inr los"
  shows "da_time da \<noteq> [] \<and> los = map2 (los_cell (dayofyear (last (da_time da)))) eos sos"
proof -
  from assms obtain last_doy where l: "py_index (map dayofyear (da_time da)) (- 1) = Inr last_doy"
    and los: "los = map2 (los_cell last_doy) eos sos"
    unfolding phen_los_def bind_r_Inr_iff by auto
  from l have ne: "da_time da \<noteq> []" by (auto simp: py_index_def split: if_splits)
  with l have "last_doy = dayofyear (last (da_time da))"
    by (simp add: py_index_def last_conv_nth nat_diff_distrib' split: if_splits)
  with ne los show ?thesis by simp
qed

lemma map_r_length: "map_r f xs = Inr ys \<Longrightarrow> length ys = length xs"
  unfolding map_r_Inr by (simp add: list_all2_lengthD)

lemma allNaN_arg_length:
  "allNaN_arg d stat = Inr (Some ix) \<Longrightarrow> length ix = length d"
  by (auto simp: allNaN_arg_def bind_r_Inr_iff split: if_splits dest!: map_r_length)

lemma select_index_length:
  "select_index nan16 method extreme d = Inr idx \<Longrightarrow> length idx = length d"
  by (auto simp: select_index_def astype16_def bind_r_Inr_iff
      split: if_splits option.splits dest!: allNaN_arg_length)

lemma isel_time_length:
  "isel_time ts arr idx = Inr r \<Longrightarrow> length r = min (length arr) (length idx)"
  by (auto simp: isel_time_def dest!: map_r_length)

lemma phen_vsos_length:
  assumes "phen_vsos nan16 da pos method_sos = Inr vsos" "length pos = length (da_values da)"
  shows "length vsos = length (da_values da)"
proof -
  from assms(1) obtain gd where
    gd: "differentiate (da_time da)
          (map2 (\<lambda>p. map2 (\<lambda>t. where_cond (stamp t < stamp p)) (da_time da)) pos (da_values da)) = Inr gd"
    and len: "length vsos = min (length gd) (min (length pos) (length (da_values da)))"
    unfolding phen_vsos_def Let_def bind_r_Inr_iff
    by (auto dest!: select_index_length isel_time_length)
  from gd have "length gd = length (da_values da)"
    using assms(2) by (auto simp: differentiate_def split: if_splits)
  with len assms(2) show ?thesis by simp
qed

lemma phen_veos_length:
  assumes "phen_veos nan16 da pos method_eos = Inr veos" "length pos = length (da_values da)"
  shows "length veos = length (da_values da)"
proof -
  from assms(1) obtain gd where
    gd: "differentiate (da_time da)
          (map2 (\<lambda>p. map2 (\<lambda>t. where_cond (stamp p < stamp t)) (da_time da)) pos (da_values da)) = Inr gd"
    and len: "length veos = min (length gd) (min (length pos) (length (da_values da)))"
    unfolding phen_veos_def Let_def bind_r_Inr_iff
    by (auto dest!: select_index_length isel_time_length)
  from gd have "length gd = length (da_values da)"
    using assms(2) by (auto simp: differentiate_def split: if_splits)
  with len assms(2) show ?thesis by simp
qed

lemma phen_pos_length: "phen_pos da = Inr pos \<Longrightarrow> length pos = length (da_values da)"
  by (auto simp: phen_pos_def split: if_splits dest!: map_r_length)

lemma los_cell_range:
  assumes "1 \<le> e" "e \<le> 366" "1 \<le> s" "s \<le> 366" "1 \<le> l" "l \<le> 366"
  shows "int16 (los_cell l e s) = los_cell l e s"
  using assms by (intro int16_id) (auto simp: los_cell_def Let_def)

text \<open>
  On the record that runs over the turn of the year the season starts on day 300
  (the first rising point) and ends on day 100 (the last falling point), which is
  also the last day of year of the record: LOS is 100 + (100 - 300) = -100.
\<close>

theorem length_of_season_negative:
  "xr_phenology example_lib 0 (volume False across_years [late_season])
     (Listed [''SOS'', ''EOS'', ''LOS'']) ''first'' ''last'' False =
   Inr [(''SOS'', \<lparr>l_x = [0], l_y = [0], l_attrs = [], l_data = Ints [300]\<rparr>),
        (''EOS'', \<lparr>l_x = [0], l_y = [0], l_attrs = [], l_data = Ints [100]\<rparr>),
        (''LOS'', \<lparr>l_x = [0], l_y = [0], l_attrs = [], l_data = Ints [- 100]\<rparr>)]"
  by code_simp

text \<open>
  C4 (amended). For every pixel, LOS is EOS - SOS when that is not negative, and the
  day of year of the last time step plus (EOS - SOS) when it is. LOS is not negative
  whenever no time step of the record has a later day of year than the last one (a
  record within one calendar year); across the turn of the year it can be negative.
\<close>

theorem length_of_season:
  assumes run: "xr_phenology lib nan16 da (Listed [''SOS'', ''EOS'', ''LOS''])
                  method_sos method_eos cs = Inr ds"
    and doy: "doy_ok da"
  shows "\<exists>sos eos los.
           map (\<lambda>(k, l). (k, l_data l)) ds =
             [(''SOS'', Ints sos), (''EOS'', Ints eos), (''LOS'', Ints los)] \<and>
           length sos = length eos \<and> length los = length eos \<and>
           (\<forall>i < length los.
              los ! i = (if 0 \<le> eos ! i - sos ! i then eos ! i - sos ! i
                         else dayofyear (last (da_time da)) + (eos ! i - sos ! i))) \<and>
           ((\<forall>t \<in> set (da_time da). dayofyear t \<le> dayofyear (last (da_time da))) \<longrightarrow>
              (\<forall>i < length los. 0 \<le> los ! i))"
proof -
  from xr_phenology_Inr [OF run] obtain da' sd where
    prep: "prepare lib da cs = Inr da'"
    and sd: "phen_stats_dict nan16 da' method_sos method_eos = Inr sd"
    and b: "build_dataset sd [''SOS'', ''EOS'', ''LOS''] = Inr ds"
    by (auto simp: as_list_def)
  from prepare_Inr [OF prep] have tm: "da_time da' = da_time da" by simp
  from phen_stats_dict_Inr [OF sd] obtain pos vsos veos los where
    pos: "phen_pos da' = Inr pos"
    and vsos: "phen_vsos nan16 da' pos method_sos = Inr vsos"
    and veos: "phen_veos nan16 da' pos method_eos = Inr veos"
    and los: "phen_los da' (phen_eos veos) (phen_sos vsos) = Inr los"
    and s: "map_of sd ''SOS'' = Some (mk_layer da' (Ints (map int16 (phen_sos vsos))))"
    and e: "map_of sd ''EOS'' = Some (mk_layer da' (Ints (map int16 (phen_eos veos))))"
    and l: "map_of sd ''LOS'' = Some (mk_layer da' (Ints (map int16 los)))"
    by auto
  let ?S = "phen_sos vsos" and ?E = "phen_eos veos"
  let ?last = "dayofyear (last (da_time da))"
  from phen_los_Inr [OF los] have ne: "da_time da \<noteq> []"
    and los_eq: "los = map2 (los_cell ?last) ?E ?S"
    unfolding tm by simp_all
  from b s e l have ds: "map (\<lambda>(k, l). (k, l_data l)) ds =
      [(''SOS'', Ints (map int16 ?S)), (''EOS'', Ints (map int16 ?E)), (''LOS'', Ints (map int16 los))]"
    by (auto simp: build_dataset_def dict_get_def bind_r_Inr_iff mk_layer_def)
  have len: "length ?S = length ?E"
    using phen_vsos_length [OF vsos phen_pos_length [OF pos]]
      phen_veos_length [OF veos phen_pos_length [OF pos]]
    by (simp add: phen_sos_def phen_eos_def)
  have srange: "1 \<le> v \<and> v \<le> 366 \<and> (\<exists>t \<in> set (da_time da). v = dayofyear t)" if "v \<in> set ?S" for v
  proof -
    from that obtain p where "p \<in> set vsos" "v = dayofyear (snd p)"
      by (auto simp: phen_sos_def)
    with phen_vsos_times [OF vsos] doy_int16 [OF doy] show ?thesis unfolding tm by blast
  qed
  have erange: "1 \<le> v \<and> v \<le> 366" if "v \<in> set ?E" for v
  proof -
    from that obtain p where "p \<in> set veos" "v = dayofyear (snd p)"
      by (auto simp: phen_eos_def)
    with phen_veos_times [OF veos] doy_int16 [OF doy] show ?thesis unfolding tm by blast
  qed
  from ne have lrange: "1 \<le> ?last \<and> ?last \<le> 366"
    using doy_int16 [OF doy, of "last (da_time da)"] by simp
  have s16: "map int16 ?S = ?S"
  proof (rule map_idI)
    fix v assume "v \<in> set ?S"
    from srange [OF this] show "int16 v = v" by (intro int16_id) simp_all
  qed
  have e16: "map int16 ?E = ?E"
  proof (rule map_idI)
    fix v assume "v \<in> set ?E"
    from erange [OF this] show "int16 v = v" by (intro int16_id) simp_all
  qed
  have cell: "los ! i = los_cell ?last (?E ! i) (?S ! i) \<and> ?E ! i \<in> set ?E \<and> ?S ! i \<in> set ?S"
    if "i < length los" for i
    using that unfolding los_eq by simp
  have l16: "map int16 los = los"
  proof (rule map_idI)
    fix v assume "v \<in> set los"
    then obtain i where i: "i < length los" "v = los ! i" by (auto simp: in_set_conv_nth)
    from cell [OF i(1)] have c: "v = los_cell ?last (?E ! i) (?S ! i)"
      "?E ! i \<in> set ?E" "?S ! i \<in> set ?S" using i(2) by simp_all
    from erange [OF c(2)] srange [OF c(3)] lrange show "int16 v = v"
      unfolding c(1) by (intro los_cell_range) simp_all
  qed
  have formula: "los ! i = (if 0 \<le> ?E ! i - ?S ! i then ?E ! i - ?S ! i
                         else ?last + (?E ! i - ?S ! i))" if "i < length los" for i
    using cell [OF that] by (simp add: los_cell_def Let_def)
  have nonneg: "0 \<le> los ! i"
    if "i < length los" and mono: "\<forall>t \<in> set (da_time da). dayofyear t \<le> ?last" for i
  proof -
    from cell [OF that(1)] have c: "?E ! i \<in> set ?E" "?S ! i \<in> set ?S" by simp_all
    from erange [OF c(1)] have "1 \<le> ?E ! i" by simp
    moreover from srange [OF c(2)] mono have "?S ! i \<le> ?last" by auto
    ultimately have "1 \<le> ?E ! i" "?S ! i \<le> ?last" .
    with formula [OF that(1)] show ?thesis by auto
  qed
  have main: "map (\<lambda>(k, l). (k, l_data l)) ds =
             [(''SOS'', Ints ?S), (''EOS'', Ints ?E), (''LOS'', Ints los)] \<and>
           length ?S = length ?E \<and> length los = length ?E \<and>
           (\<forall>i < length los.
              los ! i = (if 0 \<le> ?E ! i - ?S ! i then ?E ! i - ?S ! i
                         else ?last + (?E ! i - ?S ! i))) \<and>
           ((\<forall>t \<in> set (da_time da). dayofyear t \<le> ?last) \<longrightarrow>
              (\<forall>i < length los. 0 \<le> los ! i))"
    using ds s16 e16 l16 len formula nonneg by (simp add: los_eq)
  show ?thesis
    by (rule exI [where x = "?S"], rule exI [where x = "?E"], rule exI [where x = los])
      (rule main)
qed

theorem length_of_season_witness:
  "xr_phenology example_lib 0 (volume False eight_days [season]) (Listed [''SOS'', ''EOS'', ''LOS''])
     ''median'' ''median'' True =
   Inr [(''SOS'', \<lparr>l_x = [0], l_y = [0], l_attrs = [], l_data = Ints [30]\<rparr>),
        (''EOS'', \<lparr>l_x = [0], l_y = [0], l_attrs = [], l_data = Ints [180]\<rparr>),
        (''LOS'', \<lparr>l_x = [0], l_y = [0], l_attrs = [], l_data = Ints [150]\<rparr>)] \<and>
   (\<exists>sos eos los. sos = [30] \<and> eos = [180] \<and> los = [150] \<and>
      (\<forall>i < length los.
          los ! i = (if 0 \<le> eos ! i - sos ! i then eos ! i - sos ! i
                     else dayofyear (last (da_time (volume False eight_days [season]))) +
                          (eos ! i - sos ! i))) \<and>
      (\<forall>i < length los. 0 \<le> los ! i))"
proof -
  let ?V = "volume False eight_days [season]"
  have run: "xr_phenology example_lib 0 ?V (Listed [''SOS'', ''EOS'', ''LOS''])
     ''median'' ''median'' True =
   Inr [(''SOS'', \<lparr>l_x = [0], l_y = [0], l_attrs = [], l_data = Ints [30]\<rparr>),
        (''EOS'', \<lparr>l_x = [0], l_y = [0], l_attrs = [], l_data = Ints [180]\<rparr>),
        (''LOS'', \<lparr>l_x = [0], l_y = [0], l_attrs = [], l_data = Ints [150]\<rparr>)]"
    by code_simp
  have doy: "doy_ok ?V"
    by code_simp
  have mono: "\<forall>t \<in> set (da_time ?V). dayofyear t \<le> dayofyear (last (da_time ?V))"
    by (simp add: volume_def eight_days_def)
  from length_of_season [OF run doy] mono obtain sos eos los where
    "sos = [30]" "eos = [180]" "los = [150]"
    "\<forall>i < length los.
          los ! i = (if 0 \<le> eos ! i - sos ! i then eos ! i - sos ! i
                     else dayofyear (last (da_time ?V)) + (eos ! i - sos ! i))"
    "\<forall>i < length los. 0 \<le> los ! i"
    by auto
  with run show ?thesis by blast
qed

section \<open>Coordinates and attributes of the output\<close>

text \<open>
  Every layer that xr_phenology returns lies over the x and y coordinates of the
  input and carries no attributes; every layer that temporal_statistics returns lies
  over the same coordinates and carries the attribute bag of the input.
\<close>

lemma xr_phenology_layer_frame:
  assumes run: "xr_phenology lib nan16 da stats method_sos method_eos cs = Inr ds"
    and l: "map_of ds k = Some l"
  shows "l_x l = da_x da \<and> l_y l = da_y da \<and> l_attrs l = []"
proof -
  from xr_phenology_Inr [OF run] obtain da' where prep: "prepare lib da cs = Inr da'" by auto
  from xr_phenology_layers [OF run prep] l obtain sd where
    sd: "phen_stats_dict nan16 da' method_sos method_eos = Inr sd" and m: "map_of sd k = Some l"
    by blast
  from map_of_SomeD [OF m] phen_stats_dict_Inr [OF sd] obtain d where "l = mk_layer da' d"
    by auto
  with prepare_Inr [OF prep] show ?thesis by (simp add: mk_layer_def)
qed

lemma ts_stat_frame:
  "ts_stat lib da arr stat = Inr l \<Longrightarrow>
   l_x l = da_x da \<and> l_y l = da_y da \<and> l_attrs l = da_attrs da"
  by (auto simp: ts_stat_def ts_layer_def bind_r_Inr_iff split: option.splits if_splits)

lemma ts_add_frame:
  assumes "ts_add lib da arr rest ds0 = Inr ds"
    and "\<And>k l. map_of ds0 k = Some l \<Longrightarrow> l_x l = da_x da \<and> l_y l = da_y da \<and> l_attrs l = da_attrs da"
    and "map_of ds k = Some l"
  shows "l_x l = da_x da \<and> l_y l = da_y da \<and> l_attrs l = da_attrs da"
  using assms
proof (induction rest arbitrary: ds0)
  case Nil
  then show ?case by simp
next
  case (Cons stat rest)
  from Cons.prems(1) obtain l' where l': "ts_stat lib da arr stat = Inr l'"
    and rec: "ts_add lib da arr rest (AList.update stat l' ds0) = Inr ds"
    by (auto simp: bind_r_Inr_iff)
  have "l_x m = da_x da \<and> l_y m = da_y da \<and> l_attrs m = da_attrs da"
    if "map_of (AList.update stat l' ds0) j = Some m" for j m
    using that ts_stat_frame [OF l'] Cons.prems(2) [of j m]
    by (auto simp: AList.update_conv' split: if_splits)
  from Cons.IH [OF rec this Cons.prems(3)] show ?case .
qed

lemma temporal_statistics_layer_frame:
  assumes run: "temporal_statistics lib da stats = Inr ds"
    and l: "map_of ds k = Some l"
  shows "l_x l = da_x da \<and> l_y l = da_y da \<and> l_attrs l = da_attrs da"
proof -
  let ?arr = "fast_completion lib (da_values da)"
  from run obtain s0 rest l0 where l0: "ts_stat lib da ?arr s0 = Inr l0"
    and rec: "ts_add lib da ?arr rest [(s0, l0)] = Inr ds"
    by (auto simp: temporal_statistics_def Let_def bind_r_Inr_iff split: list.splits)
  have "l_x m = da_x da \<and> l_y m = da_y da \<and> l_attrs m = da_attrs da"
    if "map_of [(s0, l0)] j = Some m" for j m
    using that ts_stat_frame [OF l0] by (auto split: if_splits)
  from ts_add_frame [OF rec this l] show ?thesis .
qed

lemma temporal_statistics_keeps_attrs:
  "temporal_statistics example_lib (volume False eight_days [season]) (Listed [''f_std_n2'', ''num_peaks'']) =
   Inr [(''f_std_n2'', \<lparr>l_x = [0], l_y = [0], l_attrs = [(''crs'', ''EPSG:6933'')], l_data = Floats [Some 2]\<rparr>),
        (''num_peaks'', \<lparr>l_x = [0], l_y = [0], l_attrs = [(''crs'', ''EPSG:6933'')], l_data = Floats [Some 0]\<rparr>)]"
  by code_simp

text \<open>
  C8. The claim: the layers of both functions share the spatial coordinates of the
  input and carry its attribute bag unchanged. The code: on a volume whose attribute
  bag holds a crs entry, the POS and LOS layers of xr_phenology, which are read from
  the time coordinate, lie over the input coordinates but come out with an empty
  attribute bag. (temporal_statistics attaches the bag to each layer, as the lemma
  above shows.)
\<close>

theorem xr_phenology_drops_attrs:
  "da_attrs (volume False eight_days [season]) = [(''crs'', ''EPSG:6933'')] \<and>
   xr_phenology example_lib 0 (volume False eight_days [season]) (Listed [''POS'', ''LOS''])
     ''median'' ''median'' True =
   Inr [(''POS'', \<lparr>l_x = [0], l_y = [0], l_attrs = [], l_data = Ints [120]\<rparr>),
        (''LOS'', \<lparr>l_x = [0], l_y = [0], l_attrs = [], l_data = Ints [150]\<rparr>)]"
  by code_simp

section \<open>The slope filter, and allNaN_arg on an array that holds a number\<close>

text \<open>
  The filter on the slopes keeps every cell: its condition is a float array whose
  cells are positive (negative) slopes or NaN, never zero.
\<close>

lemma slope_filter_keeps_all:
  "where_cond (truthy (where_cond (positive d) d)) v = v"
  "where_cond (truthy (where_cond (negative d) d)) v = v"
  by (cases d; simp add: where_cond_def truthy_def positive_def negative_def)+

text \<open>
  When some cell of the array is a number (and no slice is empty), allNaN_arg raises
  nothing: an all-missing slice gets a missing index, and a slice without missing
  cells gets the first position of its maximum (minimum).
\<close>

lemma nanargmin_present:
  assumes "present vs \<noteq> []"
  shows "\<exists>i. nanargmin vs = Inr i \<and> i < length vs \<and> vs ! i = Some (Min {r. Some r \<in> set vs}) \<and>
             (\<forall>j < i. vs ! j \<noteq> Some (Min {r. Some r \<in> set vs}))"
proof -
  from assms obtain r rs where p: "present vs = r # rs" by (cases "present vs") auto
  have m: "fold min rs r = Min {r. Some r \<in> set vs}"
    using p set_present [of vs] by (simp add: fold_min_Min)
  have fin: "finite {r. Some r \<in> set vs}" "{r. Some r \<in> set vs} \<noteq> {}"
    using p set_present [of vs] by (metis List.finite_set, auto)
  from Min_in [OF fin] have "Some (Min {r. Some r \<in> set vs}) \<in> set vs" by simp
  from first_index_first [OF this] show ?thesis using p m by (simp add: nanargmin_def)
qed

lemma map_r_total:
  "(\<And>x. x \<in> set xs \<Longrightarrow> \<exists>y. f x = Inr y \<and> P x y) \<Longrightarrow>
   \<exists>ys. map_r f xs = Inr ys \<and> list_all2 P xs ys"
proof (induction xs)
  case Nil
  then show ?case by simp
next
  case (Cons a as)
  from Cons.prems [of a] obtain b where b: "f a = Inr b" "P a b" by auto
  from Cons.IH Cons.prems obtain bs where bs: "map_r f as = Inr bs" "list_all2 P as bs"
    by (metis list.set_intros(2))
  from b bs have "map_r f (a # as) = Inr (b # bs) \<and> list_all2 P (a # as) (b # bs)" by simp
  then show ?case by (rule exI)
qed

lemma filled_present: "vs \<noteq> [] \<Longrightarrow> present (map (fillna (Some c)) vs) \<noteq> []"
  by (cases vs; cases "hd vs") (auto simp: fillna_def split: option.splits)

lemma fill_no_missing: "None \<notin> set vs \<Longrightarrow> map (fillna c) vs = vs"
  by (rule map_idI) (auto simp: fillna_def split: option.splits)

lemma no_missing_not_null: "None \<notin> set vs \<Longrightarrow> vs \<noteq> [] \<Longrightarrow> \<not> all_null vs"
  by (cases vs; cases "hd vs") (auto simp: all_null_def)

lemma allNaN_arg_max_some_number:
  assumes some: "present (concat da) \<noteq> []" and ne: "\<And>s. s \<in> set da \<Longrightarrow> s \<noteq> []"
  shows "\<exists>ix. allNaN_arg da ''max'' = Inr (Some ix) \<and> length ix = length da \<and>
           (\<forall>i < length da.
              (all_null (da ! i) \<longrightarrow> ix ! i = None) \<and>
              (None \<notin> set (da ! i) \<longrightarrow>
                 (\<exists>j. ix ! i = Some j \<and> j < length (da ! i) \<and>
                    da ! i ! j = Some (Max {r. Some r \<in> set (da ! i)}) \<and>
                    (\<forall>k < j. da ! i ! k \<noteq> Some (Max {r. Some r \<in> set (da ! i)})))))"
proof -
  let ?c = "Min {r. Some r \<in> set (concat da)} - 1"
  let ?P = "\<lambda>s j. nanargmax (map (fillna (Some ?c)) s) = Inr j"
  from nanmin_present [OF some]
  have m: "nanmin (concat da) = Inr (Some (Min {r. Some r \<in> set (concat da)}))" .
  have "\<exists>y. nanargmax (map (fillna (Some ?c)) s) = Inr y \<and> ?P s y" if "s \<in> set da" for s
    using nanargmax_present [OF filled_present [OF ne [OF that], of ?c]] by auto
  then have "\<exists>ys. map_r (\<lambda>s. nanargmax (map (fillna (Some ?c)) s)) da = Inr ys \<and> list_all2 ?P da ys"
    by (rule map_r_total)
  then obtain ys where ys: "map_r (\<lambda>s. nanargmax (map (fillna (Some ?c)) s)) da = Inr ys"
    and all: "list_all2 ?P da ys"
    by (elim exE conjE)
  from ys have ys': "map_r nanargmax (map (map (fillna (Some ?c))) da) = Inr ys"
    by (simp add: map_r_Inr list_all2_map1)
  have run: "allNaN_arg da ''max'' = Inr (Some (map2 mask_index da ys))"
    using m ys' by (simp add: allNaN_arg_def bind_r_simps vsub_def)
  from all have len: "length ys = length da" by (simp add: list_all2_lengthD)
  have cell: "(all_null (da ! i) \<longrightarrow> map2 mask_index da ys ! i = None) \<and>
              (None \<notin> set (da ! i) \<longrightarrow>
                 (\<exists>j. map2 mask_index da ys ! i = Some j \<and> j < length (da ! i) \<and>
                    da ! i ! j = Some (Max {r. Some r \<in> set (da ! i)}) \<and>
                    (\<forall>k < j. da ! i ! k \<noteq> Some (Max {r. Some r \<in> set (da ! i)}))))"
    if i: "i < length da" for i
  proof (intro conjI impI)
    assume "all_null (da ! i)"
    with i len show "map2 mask_index da ys ! i = None" by (simp add: mask_index_def)
  next
    assume none: "None \<notin> set (da ! i)"
    from i have mem: "da ! i \<in> set da" by simp
    from all i have "?P (da ! i) (ys ! i)" by (simp add: list_all2_conv_all_nth)
    with fill_no_missing [OF none] have "nanargmax (da ! i) = Inr (ys ! i)" by simp
    from nanargmax_Inr [OF this] no_missing_not_null [OF none ne [OF mem]] i len
    have "map2 mask_index da ys ! i = Some (ys ! i) \<and> ys ! i < length (da ! i) \<and>
          da ! i ! (ys ! i) = Some (Max {r. Some r \<in> set (da ! i)}) \<and>
          (\<forall>k < ys ! i. da ! i ! k \<noteq> Some (Max {r. Some r \<in> set (da ! i)}))"
      by (simp add: mask_index_def)
    then show "\<exists>j. map2 mask_index da ys ! i = Some j \<and> j < length (da ! i) \<and>
                    da ! i ! j = Some (Max {r. Some r \<in> set (da ! i)}) \<and>
                    (\<forall>k < j. da ! i ! k \<noteq> Some (Max {r. Some r \<in> set (da ! i)}))"
      by (rule exI)
  qed
  from run len cell
  have "allNaN_arg da ''max'' = Inr (Some (map2 mask_index da ys)) \<and>
        length (map2 mask_index da ys) = length da \<and>
        (\<forall>i < length da.
              (all_null (da ! i) \<longrightarrow> map2 mask_index da ys ! i = None) \<and>
              (None \<notin> set (da ! i) \<longrightarrow>
                 (\<exists>j. map2 mask_index da ys ! i = Some j \<and> j < length (da ! i) \<and>
                    da ! i ! j = Some (Max {r. Some r \<in> set (da ! i)}) \<and>
                    (\<forall>k < j. da ! i ! k \<noteq> Some (Max {r. Some r \<in> set (da ! i)})))))"
    by simp
  then show ?thesis by (rule exI)
qed

lemma nanargmin_Inr:
  assumes "nanargmin vs = Inr i"
  shows "i < length vs \<and> vs ! i = Some (Min {r. Some r \<in> set vs}) \<and>
         (\<forall>j < i. vs ! j \<noteq> Some (Min {r. Some r \<in> set vs}))"
proof -
  from assms have "present vs \<noteq> []" by (auto simp: nanargmin_def split: list.splits)
  from nanargmin_present [OF this] assms show ?thesis by auto
qed

lemma allNaN_arg_min_some_number:
  assumes some: "present (concat da) \<noteq> []" and ne: "\<And>s. s \<in> set da \<Longrightarrow> s \<noteq> []"
  shows "\<exists>ix. allNaN_arg da ''min'' = Inr (Some ix) \<and> length ix = length da \<and>
           (\<forall>i < length da.
              (all_null (da ! i) \<longrightarrow> ix ! i = None) \<and>
              (None \<notin> set (da ! i) \<longrightarrow>
                 (\<exists>j. ix ! i = Some j \<and> j < length (da ! i) \<and>
                    da ! i ! j = Some (Min {r. Some r \<in> set (da ! i)}) \<and>
                    (\<forall>k < j. da ! i ! k \<noteq> Some (Min {r. Some r \<in> set (da ! i)})))))"
proof -
  let ?c = "Max {r. Some r \<in> set (concat da)} + 1"
  let ?P = "\<lambda>s j. nanargmin (map (fillna (Some ?c)) s) = Inr j"
  from nanmax_present [OF some]
  have m: "nanmax (concat da) = Inr (Some (Max {r. Some r \<in> set (concat da)}))" .
  have "\<exists>y. nanargmin (map (fillna (Some ?c)) s) = Inr y \<and> ?P s y" if "s \<in> set da" for s
    using nanargmin_present [OF filled_present [OF ne [OF that], of ?c]] by auto
  then have "\<exists>ys. map_r (\<lambda>s. nanargmin (map (fillna (Some ?c)) s)) da = Inr ys \<and> list_all2 ?P da ys"
    by (rule map_r_total)
  then obtain ys where ys: "map_r (\<lambda>s. nanargmin (map (fillna (Some ?c)) s)) da = Inr ys"
    and all: "list_all2 ?P da ys"
    by (elim exE conjE)
  from ys have ys': "map_r nanargmin (map (map (fillna (Some ?c))) da) = Inr ys"
    by (simp add: map_r_Inr list_all2_map1)
  have run: "allNaN_arg da ''min'' = Inr (Some (map2 mask_index da ys))"
    using m ys' by (simp add: allNaN_arg_def bind_r_simps vadd_def)
  from all have len: "length ys = length da" by (simp add: list_all2_lengthD)
  have cell: "(all_null (da ! i) \<longrightarrow> map2 mask_index da ys ! i = None) \<and>
              (None \<notin> set (da ! i) \<longrightarrow>
                 (\<exists>j. map2 mask_index da ys ! i = Some j \<and> j < length (da ! i) \<and>
                    da ! i ! j = Some (Min {r. Some r \<in> set (da ! i)}) \<and>
                    (\<forall>k < j. da ! i ! k \<noteq> Some (Min {r. Some r \<in> set (da ! i)}))))"
    if i: "i < length da" for i
  proof (intro conjI impI)
    assume "all_null (da ! i)"
    with i len show "map2 mask_index da ys ! i = None" by (simp add: mask_index_def)
  next
    assume none: "None \<notin> set (da ! i)"
    from i have mem: "da ! i \<in> set da" by simp
    from all i have "?P (da ! i) (ys ! i)" by (simp add: list_all2_conv_all_nth)
    with fill_no_missing [OF none] have "nanargmin (da ! i) = Inr (ys ! i)" by simp
    from nanargmin_Inr [OF this] no_missing_not_null [OF none ne [OF mem]] i len
    have "map2 mask_index da ys ! i = Some (ys ! i) \<and> ys ! i < length (da ! i) \<and>
          da ! i ! (ys ! i) = Some (Min {r. Some r \<in> set (da ! i)}) \<and>
          (\<forall>k < ys ! i. da ! i ! k \<noteq> Some (Min {r. Some r \<in> set (da ! i)}))"
      by (simp add: mask_index_def)
    then show "\<exists>j. map2 mask_index da ys ! i = Some j \<and> j < length (da ! i) \<and>
                    da ! i ! j = Some (Min {r. Some r \<in> set (da ! i)}) \<and>
                    (\<forall>k < j. da ! i ! k \<noteq> Some (Min {r. Some r \<in> set (da ! i)}))"
      by (rule exI)
  qed
  from run len cell
  have "allNaN_arg da ''min'' = Inr (Some (map2 mask_index da ys)) \<and>
        length (map2 mask_index da ys) = length da \<and>
        (\<forall>i < length da.
              (all_null (da ! i) \<longrightarrow> map2 mask_index da ys ! i = None) \<and>
              (None \<notin> set (da ! i) \<longrightarrow>
                 (\<exists>j. map2 mask_index da ys ! i = Some j \<and> j < length (da ! i) \<and>
                    da ! i ! j = Some (Min {r. Some r \<in> set (da ! i)}) \<and>
                    (\<forall>k < j. da ! i ! k \<noteq> Some (Min {r. Some r \<in> set (da ! i)})))))"
    by simp
  then show ?thesis by (rule exI)
qed

end
